theory Spec2Isabelle
  imports Complex_Main "HOL-Library.Sublist"
begin

section \<open>The API client: building request URLs\<close>

text \<open>
  The frontend's API module builds every request URL with \<open>apiUrl\<close>:
  \<^verbatim>\<open>
  function apiUrl(apiBase: string, path: string): string {
    const full = apiBase.replace(/\/$/, "") + path;
    if (full.startsWith("http")) return full;
    return `${window.location.origin}${full.startsWith("/") ? full : "/" + full}`;
  }
  \<close>
  Strings are lists of characters. The only ambient value read is
  \<open>window.location.origin\<close>, which the model takes as its first argument.
\<close>

text \<open>
  \<open>s.replace(/\/$/, "")\<close>: the pattern has no flags, so \<open>$\<close> matches at the end of
  the input only and at most one match is replaced. Scanning from the left, the first
  position where the pattern matches is a \<open>/\<close> that is the last character.
\<close>

fun replace_trailing_slash :: "string \<Rightarrow> string" where
  "replace_trailing_slash [] = []"
| "replace_trailing_slash (c # cs) =
     (if c = CHR ''/'' \<and> cs = [] then [] else c # replace_trailing_slash cs)"

text \<open>\<open>s.startsWith(p)\<close>, character by character.\<close>

fun startsWith :: "string \<Rightarrow> string \<Rightarrow> bool" where
  "startsWith s [] = True"
| "startsWith [] (p # ps) = False"
| "startsWith (c # cs) (p # ps) = (c = p \<and> startsWith cs ps)"

definition apiUrl :: "string \<Rightarrow> string \<Rightarrow> string \<Rightarrow> string" where
  "apiUrl origin apiBase path =
     (let full = replace_trailing_slash apiBase @ path in
      if startsWith full ''http'' then full
      else origin @ (if startsWith full ''/'' then full else ''/'' @ full))"

text \<open>
  The same function told in the words of its description: drop one trailing slash when
  there is one, append the path, keep an \<open>http\<close> string as it is, and otherwise put
  the origin in front, with a slash when the string has none at its head.
\<close>

definition strip_one_trailing_slash :: "string \<Rightarrow> string" where
  "strip_one_trailing_slash s =
     (if s \<noteq> [] \<and> last s = CHR ''/'' then butlast s else s)"

definition apiUrl_described :: "string \<Rightarrow> string \<Rightarrow> string \<Rightarrow> string" where
  "apiUrl_described origin apiBase path =
     (let full = strip_one_trailing_slash apiBase @ path in
      if prefix ''http'' full then full
      else if prefix ''/'' full then origin @ full
      else origin @ ''/'' @ full)"

section \<open>The queue request\<close>

text \<open>
  \<^verbatim>\<open>
  export async function fetchQueue(apiBase, params = {}) {
    const url = new URL(apiUrl(apiBase, "/queue"));
    Object.entries(params).forEach(([k, v]) => {
      if (v != null && v !== "") url.searchParams.set(k, String(v));
    });
    const r = await fetch(url.toString());
    ...
  \<close>
  The values a filter may hold: the declared type is \<open>string\<close> or \<open>number\<close>, both
  optional; the test \<open>v != null\<close> also covers \<open>null\<close>. Numbers are kept abstract
  (type \<open>'n\<close>): the request only renders them with \<open>String\<close>, and the view only
  produces them with \<open>parseFloat\<close> and tests them with \<open>isNaN\<close>; these three
  platform functions are parameters of the model.
\<close>

datatype 'n param_value = Undefined | Null | Str string | Num 'n

text \<open>\<open>String(v)\<close>.\<close>

fun String_of :: "('n \<Rightarrow> string) \<Rightarrow> 'n param_value \<Rightarrow> string" where
  "String_of num_str Undefined = ''undefined''"
| "String_of num_str Null = ''null''"
| "String_of num_str (Str s) = s"
| "String_of num_str (Num n) = num_str n"

text \<open>
  A parsed URL: its list of query parameters, and the rest of it (scheme, host, path,
  fragment), which the request never touches. The platform's \<open>new URL(s)\<close> is a
  parameter \<open>new_URL\<close> of the model; it throws a \<open>TypeError\<close> on a string that is no
  absolute URL, which is the result \<open>None\<close>.
\<close>

record URL =
  location :: string
  searchParams :: "(string \<times> string) list"

datatype error = TypeError

text \<open>
  \<open>URLSearchParams.set(name, value)\<close>: the first parameter of that name takes the
  value and the other parameters of that name are removed; without one, the pair is
  appended.
\<close>

fun searchParams_set :: "(string \<times> string) list \<Rightarrow> string \<Rightarrow> string \<Rightarrow> (string \<times> string) list" where
  "searchParams_set [] k v = [(k, v)]"
| "searchParams_set (p # ps) k v =
     (if fst p = k then (k, v) # filter (\<lambda>q. fst q \<noteq> k) ps
      else p # searchParams_set ps k v)"

text \<open>The body of the \<open>forEach\<close>, for one entry of the object.\<close>

definition fetchQueue_entry :: "('n \<Rightarrow> string) \<Rightarrow> string \<times> 'n param_value \<Rightarrow> URL \<Rightarrow> URL" where
  "fetchQueue_entry num_str e url =
     (case e of (k, v) \<Rightarrow>
        if (v \<noteq> Undefined \<and> v \<noteq> Null) \<and> v \<noteq> Str ''''
        then url\<lparr>searchParams := searchParams_set (searchParams url) k (String_of num_str v)\<rparr>
        else url)"

text \<open>
  The URL that \<open>fetchQueue\<close> requests. The object \<open>params\<close> is the list of its
  entries in insertion order, as \<open>Object.entries\<close> returns them.
\<close>

definition fetchQueue_url ::
  "(string \<Rightarrow> URL option) \<Rightarrow> ('n \<Rightarrow> string) \<Rightarrow> string \<Rightarrow> string \<Rightarrow> (string \<times> 'n param_value) list
   \<Rightarrow> error + URL" where
  "fetchQueue_url new_URL num_str origin apiBase params =
     (case new_URL (apiUrl origin apiBase ''/queue'') of
        None \<Rightarrow> Inl TypeError
      | Some url \<Rightarrow> Inr (fold (fetchQueue_entry num_str) params url))"

text \<open>Assignment to a property of an object: \<open>obj[k] = v\<close>.\<close>

fun obj_set :: "(string \<times> 'v) list \<Rightarrow> string \<Rightarrow> 'v \<Rightarrow> (string \<times> 'v) list" where
  "obj_set [] k v = [(k, v)]"
| "obj_set (p # ps) k v = (if fst p = k then (k, v) # ps else p # obj_set ps k v)"

text \<open>
  The queue view's effect builds the object from its three filter inputs:
  \<^verbatim>\<open>
  const params = {};
  if (filterComponent) params.component = filterComponent;
  if (filterState) params.state = filterState;
  const min = parseFloat(filterMinScore);
  if (!isNaN(min)) params.min_score = min;
  fetchQueue(apiBase, params)
  \<close>
  A string is truthy when it is not empty.
\<close>

definition QueueView_params ::
  "(string \<Rightarrow> 'n) \<Rightarrow> ('n \<Rightarrow> bool) \<Rightarrow> string \<Rightarrow> string \<Rightarrow> string \<Rightarrow> (string \<times> 'n param_value) list" where
  "QueueView_params parseFloat isNaN filterComponent filterState filterMinScore =
     (let params0 = [];
          params1 = (if filterComponent \<noteq> '''' then obj_set params0 ''component'' (Str filterComponent)
                     else params0);
          params2 = (if filterState \<noteq> '''' then obj_set params1 ''state'' (Str filterState)
                     else params1);
          min = parseFloat filterMinScore
      in if \<not> isNaN min then obj_set params2 ''min_score'' (Num min) else params2)"

definition QueueView_url ::
  "(string \<Rightarrow> URL option) \<Rightarrow> ('n \<Rightarrow> string) \<Rightarrow> (string \<Rightarrow> 'n) \<Rightarrow> ('n \<Rightarrow> bool) \<Rightarrow> string \<Rightarrow> string
   \<Rightarrow> string \<Rightarrow> string \<Rightarrow> string \<Rightarrow> error + URL" where
  "QueueView_url new_URL num_str parseFloat isNaN origin apiBase
       filterComponent filterState filterMinScore =
     fetchQueue_url new_URL num_str origin apiBase
       (QueueView_params parseFloat isNaN filterComponent filterState filterMinScore)"

text \<open>The names of the query parameters of a URL, and the values under one name.\<close>

definition param_names :: "URL \<Rightarrow> string set" where
  "param_names url = fst ` set (searchParams url)"

definition param_values :: "URL \<Rightarrow> string \<Rightarrow> string list" where
  "param_values url k = map snd (filter (\<lambda>p. fst p = k) (searchParams url))"

text \<open>The test of the \<open>forEach\<close> body: neither \<open>null\<close>/\<open>undefined\<close> nor the empty string.\<close>

definition given :: "'n param_value \<Rightarrow> bool" where
  "given v = (v \<noteq> Undefined \<and> v \<noteq> Null \<and> v \<noteq> Str '''')"

section \<open>The records of the client\<close>

text \<open>
  The interfaces of the API module, as records. A \<open>number\<close> is a real number here;
  a nullable string is an \<open>option\<close>.
  \<^verbatim>\<open>
  export interface EvidenceRef { ref_type: string; artifact_id: string | null; stable_id: string; }
  export interface Reason { reason: string; score_contribution: number; evidence_refs: EvidenceRef[]; }
  export interface ScoreResult { total_score: number; reasons: Reason[]; diff_id: string; }
  export interface DiffHunk { file_path: string; old_start: number; old_count: number;
    new_start: number; new_count: number; lines: string[]; hunk_id: string; }
  \<close>
\<close>

record EvidenceRef =
  ref_type :: string
  artifact_id :: "string option"
  stable_id :: string

record Reason =
  reason :: string
  score_contribution :: real
  evidence_refs :: "EvidenceRef list"

record ScoreResult =
  total_score :: real
  reasons :: "Reason list"
  diff_id :: string

record DiffHunk =
  file_path :: string
  old_start :: real
  old_count :: real
  new_start :: real
  new_count :: real
  lines :: "string list"
  hunk_id :: string

text \<open>
  A record's selectors have no names inside the logic, so the members of \<open>Reason\<close>
  are also given as data: what reading a member by its name yields (\<open>None\<close> is
  JavaScript's \<open>undefined\<close>), and the names in the order of the declaration.
\<close>

datatype member_value = MString string | MNumber real | MRefs "EvidenceRef list"

definition Reason_member :: "Reason \<Rightarrow> string \<Rightarrow> member_value option" where
  "Reason_member r name =
     (if name = ''reason'' then Some (MString (reason r))
      else if name = ''score_contribution'' then Some (MNumber (score_contribution r))
      else if name = ''evidence_refs'' then Some (MRefs (evidence_refs r))
      else None)"

definition Reason_keys :: "string list" where
  "Reason_keys = [''reason'', ''score_contribution'', ''evidence_refs'']"

text \<open>\<open>xs.join(sep)\<close> on an array of strings.\<close>

fun join :: "string \<Rightarrow> string list \<Rightarrow> string" where
  "join sep [] = ''''"
| "join sep [x] = x"
| "join sep (x # y # ys) = x @ sep @ join sep (y # ys)"

text \<open>
  The diff detail view shows one list item for each reason:
  \<^verbatim>\<open>
  <li key={i}>{r.reason} -- refs: {r.evidence_refs.map((e) => e.stable_id).join(", ")}</li>
  \<close>
  where the source has an em dash (U+2014) for the two hyphens; it is written here as
  its three UTF-8 bytes.
\<close>

definition em_dash :: string where
  "em_dash = [CHR 0xE2, CHR 0x80, CHR 0x94]"

definition DiffDetailView_reason_item :: "Reason \<Rightarrow> string" where
  "DiffDetailView_reason_item r =
     reason r @ '' '' @ em_dash @ '' refs: '' @ join '', '' (map stable_id (evidence_refs r))"

section \<open>Properties of the API client\<close>

lemma replace_trailing_slash_strip:
  "replace_trailing_slash s = strip_one_trailing_slash s"
proof (induction s)
  case Nil
  show ?case by (simp add: strip_one_trailing_slash_def)
next
  case (Cons c cs)
  show ?case
  proof (cases "cs = []")
    case True
    then show ?thesis by (simp add: strip_one_trailing_slash_def)
  next
    case False
    with Cons show ?thesis by (simp add: strip_one_trailing_slash_def)
  qed
qed

lemma startsWith_prefix: "startsWith s p = prefix p s"
  by (induction s p rule: startsWith.induct) auto

text \<open>
  C9. \<open>apiUrl\<close> removes exactly one trailing \<open>/\<close> of \<open>apiBase\<close> (when there is one)
  and appends \<open>path\<close>; a result that starts with \<open>http\<close> is returned as it is;
  otherwise the origin is put in front, with a \<open>/\<close> inserted exactly when the string
  does not start with one. The result is a function of the origin and the two arguments.
\<close>

theorem apiUrl_as_described:
  "apiUrl origin apiBase path = apiUrl_described origin apiBase path
   \<and> replace_trailing_slash (s @ ''/'') = s
   \<and> replace_trailing_slash (s @ [c, d]) = (if d = CHR ''/'' then s @ [c] else s @ [c, d])"
proof -
  have a: "apiUrl origin apiBase path = apiUrl_described origin apiBase path"
    by (simp add: apiUrl_def apiUrl_described_def replace_trailing_slash_strip
        startsWith_prefix Let_def)
  have b: "replace_trailing_slash (s @ ''/'') = s"
    by (simp add: replace_trailing_slash_strip strip_one_trailing_slash_def)
  have c: "replace_trailing_slash (s @ [c, d]) = (if d = CHR ''/'' then s @ [c] else s @ [c, d])"
    by (simp add: replace_trailing_slash_strip strip_one_trailing_slash_def butlast_append)
  from a b c show ?thesis by blast
qed

lemma apiUrl_examples:
  "apiUrl ''http://localhost:3000'' ''/api'' ''/queue'' = ''http://localhost:3000/api/queue''"
  "apiUrl ''http://localhost:3000'' ''/api/'' ''/queue'' = ''http://localhost:3000/api/queue''"
  "apiUrl ''http://localhost:3000'' ''/api//'' ''/queue'' = ''http://localhost:3000/api//queue''"
  "apiUrl ''http://localhost:3000'' ''api'' ''/queue'' = ''http://localhost:3000/api/queue''"
  "apiUrl ''http://localhost:3000'' ''https://host:8000/'' ''/queue'' = ''https://host:8000/queue''"
  by (simp_all add: apiUrl_def)

section \<open>Properties of the queue request\<close>

lemma searchParams_set_names:
  "fst ` set (searchParams_set ps k v) = insert k (fst ` set ps)"
  by (induction ps) auto

lemma searchParams_set_same:
  "filter (\<lambda>p. fst p = k) (searchParams_set ps k v) = [(k, v)]"
proof (induction ps)
  case Nil
  show ?case by simp
next
  case (Cons p ps)
  have "filter (\<lambda>q. fst q = k) (filter (\<lambda>q. fst q \<noteq> k) ps) = []"
    by (induction ps) auto
  with Cons show ?case by simp
qed

lemma searchParams_set_other:
  "k' \<noteq> k \<Longrightarrow>
   filter (\<lambda>p. fst p = k') (searchParams_set ps k v) = filter (\<lambda>p. fst p = k') ps"
proof (induction ps)
  case Nil
  then show ?case by simp
next
  case (Cons p ps)
  have "filter (\<lambda>q. fst q = k') (filter (\<lambda>q. fst q \<noteq> k) ps) = filter (\<lambda>q. fst q = k') ps"
    using Cons.prems by (induction ps) auto
  with Cons show ?case by auto
qed

lemma entry_names:
  "param_names (fetchQueue_entry num_str (k, v) url) =
   (if given v then insert k (param_names url) else param_names url)"
  by (simp add: fetchQueue_entry_def param_names_def given_def searchParams_set_names)

lemma fold_entry_names:
  "param_names (fold (fetchQueue_entry num_str) params url) =
   param_names url \<union> {k. \<exists>v. (k, v) \<in> set params \<and> given v}"
proof (induction params arbitrary: url)
  case Nil
  show ?case by simp
next
  case (Cons e es)
  obtain k v where e: "e = (k, v)" by (cases e)
  have "param_names (fold (fetchQueue_entry num_str) (e # es) url) =
        param_names (fetchQueue_entry num_str (k, v) url) \<union> {k. \<exists>v. (k, v) \<in> set es \<and> given v}"
    by (simp add: Cons e)
  also have "\<dots> = param_names url \<union> {k'. \<exists>v'. (k', v') \<in> set (e # es) \<and> given v'}"
    by (auto simp: entry_names e)
  finally show ?case .
qed

lemma fold_entry_absent:
  "k \<notin> fst ` set params \<Longrightarrow>
   param_values (fold (fetchQueue_entry num_str) params url) k = param_values url k"
proof (induction params arbitrary: url)
  case Nil
  show ?case by simp
next
  case (Cons e es)
  obtain k' v where e: "e = (k', v)" by (cases e)
  from Cons.prems e have ne: "k \<noteq> k'" and rest: "k \<notin> fst ` set es" by auto
  have "param_values (fetchQueue_entry num_str e url) k = param_values url k"
    using ne by (simp add: e fetchQueue_entry_def param_values_def searchParams_set_other)
  with Cons.IH [OF rest] show ?case by simp
qed

lemma fold_entry_value:
  "distinct (map fst params) \<Longrightarrow> (k, v) \<in> set params \<Longrightarrow> given v \<Longrightarrow>
   param_values (fold (fetchQueue_entry num_str) params url) k = [String_of num_str v]"
proof (induction params arbitrary: url)
  case Nil
  then show ?case by simp
next
  case (Cons e es)
  obtain k' v' where e: "e = (k', v')" by (cases e)
  show ?case
  proof (cases "(k, v) = e")
    case True
    with Cons.prems e have absent: "k \<notin> fst ` set es" by auto
    have "param_values (fetchQueue_entry num_str e url) k = [String_of num_str v]"
      using True Cons.prems(3)
      by (auto simp: fetchQueue_entry_def param_values_def given_def searchParams_set_same)
    with fold_entry_absent [OF absent] show ?thesis by simp
  next
    case False
    with Cons.prems have "(k, v) \<in> set es" "distinct (map fst es)" by auto
    with Cons.IH Cons.prems(3) show ?thesis by simp
  qed
qed

lemma obj_set_names: "fst ` set (obj_set ps k v) = insert k (fst ` set ps)"
  by (induction ps) auto

lemma obj_set_distinct: "distinct (map fst ps) \<Longrightarrow> distinct (map fst (obj_set ps k v))"
proof (induction ps)
  case Nil
  show ?case by simp
next
  case (Cons p ps)
  have "set (map fst (obj_set ps k v)) = insert k (set (map fst ps))"
    using obj_set_names [of ps k v] by simp
  with Cons show ?case by auto
qed

lemma QueueView_params_distinct:
  "distinct (map fst (QueueView_params parseFloat isNaN fc fs fms))"
  by (simp add: QueueView_params_def Let_def obj_set_distinct)

lemma QueueView_params_min_score:
  "((''min_score'', v) \<in> set (QueueView_params parseFloat isNaN fc fs fms)) =
   (\<not> isNaN (parseFloat fms) \<and> v = Num (parseFloat fms))"
  by (auto simp: QueueView_params_def Let_def)

text \<open>
  Whatever the URL built from \<open>apiBase\<close> carries, the request keeps its parameters and
  adds those of the given filters; a string that does not parse makes the request fail
  before anything is fetched.
\<close>

lemma fetchQueue_url_names:
  assumes "new_URL (apiUrl origin apiBase ''/queue'') = Some url0"
  shows "\<exists>url. fetchQueue_url new_URL num_str origin apiBase params = Inr url
           \<and> param_names url = param_names url0 \<union> {k. \<exists>v. (k, v) \<in> set params \<and> given v}"
  using assms by (simp add: fetchQueue_url_def fold_entry_names)

lemma fetchQueue_url_TypeError:
  assumes "new_URL (apiUrl origin apiBase ''/queue'') = None"
  shows "fetchQueue_url new_URL num_str origin apiBase params = Inl TypeError"
  using assms by (simp add: fetchQueue_url_def)

text \<open>
  C10. Let the URL built from \<open>apiBase\<close> parse, and let it not carry the key \<open>k\<close>
  already (no URL built from a base without a query string does). Then for every
  \<open>params\<close> object, \<open>k\<close> (in particular each of \<open>component\<close>, \<open>state\<close>,
  \<open>min_score\<close>, \<open>build_from\<close>, \<open>build_to\<close>) is a query parameter of the requested
  URL if and only if its value in \<open>params\<close> is neither \<open>null\<close>/\<open>undefined\<close> nor the
  empty string, and then its only query value is \<open>String\<close> of the given value. In the
  queue view, \<open>min_score\<close> is a query parameter exactly when \<open>parseFloat\<close> of the
  filter input is not \<open>NaN\<close>, with the rendering of that number as its value.
\<close>

theorem fetchQueue_query_parameters:
  assumes parsed: "new_URL (apiUrl origin apiBase ''/queue'') = Some url0"
    and keys: "distinct (map fst params)"
    and fresh: "k \<notin> param_names url0"
    and fresh_min: "''min_score'' \<notin> param_names url0"
  shows "(\<exists>url. fetchQueue_url new_URL num_str origin apiBase params = Inr url
            \<and> (k \<in> param_names url \<longleftrightarrow> (\<exists>v. (k, v) \<in> set params \<and> given v))
            \<and> (\<forall>v. (k, v) \<in> set params \<and> given v \<longrightarrow>
                   param_values url k = [String_of num_str v]))
       \<and> (\<exists>url. QueueView_url new_URL num_str parseFloat isNaN origin apiBase fc fs fms = Inr url
            \<and> (''min_score'' \<in> param_names url \<longleftrightarrow> \<not> isNaN (parseFloat fms))
            \<and> (\<not> isNaN (parseFloat fms) \<longrightarrow>
                   param_values url ''min_score'' = [num_str (parseFloat fms)]))"
proof
  let ?url = "fold (fetchQueue_entry num_str) params url0"
  have r: "fetchQueue_url new_URL num_str origin apiBase params = Inr ?url"
    by (simp add: fetchQueue_url_def parsed)
  have n: "k \<in> param_names ?url \<longleftrightarrow> (\<exists>v. (k, v) \<in> set params \<and> given v)"
    using fresh by (simp add: fold_entry_names)
  have v: "\<forall>v. (k, v) \<in> set params \<and> given v \<longrightarrow> param_values ?url k = [String_of num_str v]"
    using keys by (blast intro: fold_entry_value)
  from r n v show "\<exists>url. fetchQueue_url new_URL num_str origin apiBase params = Inr url
            \<and> (k \<in> param_names url \<longleftrightarrow> (\<exists>v. (k, v) \<in> set params \<and> given v))
            \<and> (\<forall>v. (k, v) \<in> set params \<and> given v \<longrightarrow>
                   param_values url k = [String_of num_str v])"
    by blast
next
  let ?ps = "QueueView_params parseFloat isNaN fc fs fms"
  let ?url = "fold (fetchQueue_entry num_str) ?ps url0"
  have r: "QueueView_url new_URL num_str parseFloat isNaN origin apiBase fc fs fms = Inr ?url"
    by (simp add: QueueView_url_def fetchQueue_url_def parsed)
  have g: "given (Num (parseFloat fms))"
    by (simp add: given_def)
  have n: "''min_score'' \<in> param_names ?url \<longleftrightarrow> \<not> isNaN (parseFloat fms)"
    using fresh_min g by (auto simp: fold_entry_names QueueView_params_min_score)
  have v: "\<not> isNaN (parseFloat fms) \<longrightarrow>
           param_values ?url ''min_score'' = [num_str (parseFloat fms)]"
  proof
    assume "\<not> isNaN (parseFloat fms)"
    then have "(''min_score'', Num (parseFloat fms)) \<in> set ?ps"
      by (simp add: QueueView_params_min_score)
    from fold_entry_value [OF QueueView_params_distinct this g]
    show "param_values ?url ''min_score'' = [num_str (parseFloat fms)]" by simp
  qed
  from r n v show "\<exists>url. QueueView_url new_URL num_str parseFloat isNaN origin apiBase fc fs fms = Inr url
            \<and> (''min_score'' \<in> param_names url \<longleftrightarrow> \<not> isNaN (parseFloat fms))
            \<and> (\<not> isNaN (parseFloat fms) \<longrightarrow>
                   param_values url ''min_score'' = [num_str (parseFloat fms)])"
    by blast
qed

theorem fetchQueue_query_parameters_witness:
  "(\<lambda>s. Some \<lparr>location = s, searchParams = []\<rparr>) (apiUrl ''http://localhost:3000'' ''/api'' ''/queue'')
     = Some \<lparr>location = ''http://localhost:3000/api/queue'', searchParams = []\<rparr>
   \<and> distinct (map fst [(''component'', Str ''syslogd''), (''state'', Str ''''), (''min_score'', Num (Some (2::nat)))])
   \<and> ''state'' \<notin> param_names \<lparr>location = ''http://localhost:3000/api/queue'', searchParams = []\<rparr>
   \<and> ''min_score'' \<notin> param_names \<lparr>location = ''http://localhost:3000/api/queue'', searchParams = []\<rparr>
   \<and> (\<exists>url. fetchQueue_url (\<lambda>s. Some \<lparr>location = s, searchParams = []\<rparr>)
                (\<lambda>n. if n = Some 2 then ''2'' else ''NaN'') ''http://localhost:3000'' ''/api''
                [(''component'', Str ''syslogd''), (''state'', Str ''''), (''min_score'', Num (Some (2::nat)))]
              = Inr url
            \<and> ''state'' \<notin> param_names url)
   \<and> (\<exists>url. QueueView_url (\<lambda>s. Some \<lparr>location = s, searchParams = []\<rparr>)
                (\<lambda>n. if n = Some 2 then ''2'' else ''NaN'')
                (\<lambda>s. if s = ''2'' then Some (2::nat) else None) (\<lambda>n. n = None)
                ''http://localhost:3000'' ''/api'' ''syslogd'' '''' ''2''
              = Inr url
            \<and> ''min_score'' \<in> param_names url
            \<and> param_values url ''min_score'' = [''2''])"
proof -
  let ?new = "\<lambda>s. Some \<lparr>location = s, searchParams = []\<rparr>"
  let ?url0 = "\<lparr>location = ''http://localhost:3000/api/queue'', searchParams = []\<rparr>"
  let ?params = "[(''component'', Str ''syslogd''), (''state'', Str ''''), (''min_score'', Num (Some (2::nat)))]"
  have h1: "?new (apiUrl ''http://localhost:3000'' ''/api'' ''/queue'') = Some ?url0"
    by (simp add: apiUrl_def)
  have h2: "distinct (map fst ?params)" by simp
  have h3: "''state'' \<notin> param_names ?url0" by (simp add: param_names_def)
  have h4: "''min_score'' \<notin> param_names ?url0" by (simp add: param_names_def)
  have g: "\<not> (\<exists>v. (''state'', v) \<in> set ?params \<and> given v)"
    by (simp add: given_def)
  from fetchQueue_query_parameters [of ?new "''http://localhost:3000''" "''/api''" ?url0 ?params
      "''state''" "\<lambda>n. if n = Some 2 then ''2'' else ''NaN''"
      "\<lambda>s. if s = ''2'' then Some (2::nat) else None" "\<lambda>n. n = None" "''syslogd''" "''''" "''2''",
      OF h1 h2 h3 h4] g h1 h2 h3 h4
  show ?thesis by simp
qed

section \<open>Properties of the records\<close>

lemma Reason_member_reason: "Reason_member r ''reason'' = Some (MString (reason r))"
  by (simp add: Reason_member_def)

lemma Reason_member_score_contribution:
  "Reason_member r ''score_contribution'' = Some (MNumber (score_contribution r))"
  by (simp add: Reason_member_def)

lemma Reason_member_evidence_refs:
  "Reason_member r ''evidence_refs'' = Some (MRefs (evidence_refs r))"
  by (simp add: Reason_member_def)

lemma Reason_member_defined:
  "(Reason_member r name \<noteq> None) = (name \<in> set Reason_keys)"
  by (simp add: Reason_member_def Reason_keys_def)

lemma Reason_member_inject:
  "(Reason_member r = Reason_member r') = (r = r')"
proof
  assume eq: "Reason_member r = Reason_member r'"
  have "Reason_member r ''reason'' = Reason_member r' ''reason''"
    and "Reason_member r ''score_contribution'' = Reason_member r' ''score_contribution''"
    and "Reason_member r ''evidence_refs'' = Reason_member r' ''evidence_refs''"
    by (simp_all add: eq)
  then have "reason r = reason r'" "score_contribution r = score_contribution r'"
    "evidence_refs r = evidence_refs r'"
    by (simp_all add: Reason_member_reason Reason_member_score_contribution
        Reason_member_evidence_refs)
  then show "r = r'" by simp
next
  assume "r = r'"
  then show "Reason_member r = Reason_member r'" by simp
qed

text \<open>
  C8, as the specification states it: a \<open>Reason\<close> has the fields \<open>text\<close>,
  \<open>score_contribution\<close> and \<open>evidence_refs\<close>. It fails on the name of the first
  field: a \<open>Reason\<close> has no member \<open>text\<close>; its members are \<open>reason\<close>,
  \<open>score_contribution\<close> and \<open>evidence_refs\<close>.
\<close>

theorem Reason_has_no_text_field:
  "Reason_member
     \<lparr>reason = ''allocation size without bounds check'', score_contribution = 5,
      evidence_refs = [\<lparr>ref_type = ''hunk'', artifact_id = None, stable_id = ''h1''\<rparr>]\<rparr>
     ''text'' = None
   \<and> ''text'' \<notin> set Reason_keys
   \<and> Reason_keys \<noteq> [''text'', ''score_contribution'', ''evidence_refs'']"
  by (simp add: Reason_member_def Reason_keys_def)

text \<open>
  C8, amended. Every \<open>Reason\<close> consists of exactly the members \<open>reason\<close> (the
  explanation, a string), \<open>score_contribution\<close> (a number) and \<open>evidence_refs\<close> (a
  list of \<open>EvidenceRef\<close>): these three are the names that are defined, they hold the
  three fields, and two reasons with the same members are equal. The explanation is
  the member named \<open>reason\<close>, and it is what the diff detail view shows in front of
  the cited stable ids.
\<close>

theorem Reason_fields:
  "(Reason_member r name \<noteq> None) = (name \<in> {''reason'', ''score_contribution'', ''evidence_refs''})
   \<and> Reason_member r ''reason'' = Some (MString (reason r))
   \<and> Reason_member r ''score_contribution'' = Some (MNumber (score_contribution r))
   \<and> Reason_member r ''evidence_refs'' = Some (MRefs (evidence_refs r))
   \<and> (Reason_member r = Reason_member r') = (r = r')
   \<and> DiffDetailView_reason_item r =
       reason r @ '' '' @ em_dash @ '' refs: '' @ join '', '' (map stable_id (evidence_refs r))"
  using Reason_member_defined [of r name] Reason_member_inject [of r r']
  by (simp add: Reason_member_reason Reason_member_score_contribution
      Reason_member_evidence_refs Reason_keys_def DiffDetailView_reason_item_def)

end
